theory Spec2Isabelle
  imports Complex_Main
begin

section \<open>The student records program (TestFiles/Code/cls.py)\<close>

text \<open>
  The program keeps a module-level list \<open>students\<close> of \<open>Student\<close> objects and offers
  menu entries that add, update, delete, view and list them. Its functions read their
  arguments with \<open>input()\<close> and report with \<open>print\<close>. In the model

  \<^item> the texts returned by the \<open>input()\<close> calls of a function are its arguments;
  \<^item> the line a function prints is its result (type \<open>line\<close>), next to the new state;
  \<^item> a \<open>Student\<close> object lives in a heap under a reference, and \<open>students\<close> is a list
    of references, so that \<open>student.age = age\<close> is an update of the heap and
    \<open>students.remove(student)\<close> compares references (the class defines no \<open>__eq__\<close>);
  \<^item> the conversions \<open>int(text)\<close> and \<open>float(text)\<close> are parameters \<open>to_int\<close> and
    \<open>to_float\<close> of the functions that call them, with \<open>None\<close> where the builtin raises
    \<open>ValueError\<close>; the theorems hold for every behaviour of the two builtins;
  \<^item> texts are ASCII strings.
\<close>

subsection \<open>Python values\<close>

text \<open>
  A float is the real number it denotes, or one of the three special values. Only
  comparisons with the integers 0 and 100 are made on floats by the program, and Python
  compares an int with a float exactly.
\<close>

datatype pyfloat = Finite real | PosInf | NegInf | NaN

datatype pyval = PInt int | PBool bool | PFloat pyfloat | PStr string | PNone

text \<open>\<open>i <= f\<close> and \<open>f <= i\<close> for an int \<open>i\<close> and a float \<open>f\<close>; every comparison with NaN is false.\<close>

fun int_le_float :: "int \<Rightarrow> pyfloat \<Rightarrow> bool" where
  "int_le_float i (Finite x) = (real_of_int i \<le> x)"
| "int_le_float i PosInf = True"
| "int_le_float i NegInf = False"
| "int_le_float i NaN = False"

fun float_le_int :: "pyfloat \<Rightarrow> int \<Rightarrow> bool" where
  "float_le_int (Finite x) i = (x \<le> real_of_int i)"
| "float_le_int PosInf i = False"
| "float_le_int NegInf i = True"
| "float_le_int NaN i = False"

text \<open>\<open>bool\<close> is a subclass of \<open>int\<close>: \<open>True\<close> is 1 and \<open>False\<close> is 0.\<close>

definition int_of_bool :: "bool \<Rightarrow> int" where
  "int_of_bool b = (if b then 1 else 0)"

text \<open>\<open>isinstance(v, int)\<close> and \<open>isinstance(v, (int, float))\<close>.\<close>

fun isinstance_int :: "pyval \<Rightarrow> bool" where
  "isinstance_int (PInt i) = True"
| "isinstance_int (PBool b) = True"
| "isinstance_int v = False"

fun isinstance_int_float :: "pyval \<Rightarrow> bool" where
  "isinstance_int_float (PInt i) = True"
| "isinstance_int_float (PBool b) = True"
| "isinstance_int_float (PFloat f) = True"
| "isinstance_int_float v = False"

subsection \<open>Texts: \<open>str.lower\<close> and \<open>str.split\<close>\<close>

definition lower_char :: "char \<Rightarrow> char" where
  "lower_char c =
     (case map_of (zip ''ABCDEFGHIJKLMNOPQRSTUVWXYZ'' ''abcdefghijklmnopqrstuvwxyz'') c of
        Some d \<Rightarrow> d
      | None \<Rightarrow> c)"

definition lower :: "string \<Rightarrow> string" where
  "lower s = map lower_char s"

text \<open>The ASCII characters for which \<open>str.isspace\<close> holds: codes 9 to 13, 28 to 32.\<close>

definition isspace :: "char \<Rightarrow> bool" where
  "isspace c =
     (c \<in> set [CHR 0x09, CHR 0x0A, CHR 0x0B, CHR 0x0C, CHR 0x0D,
                CHR 0x1C, CHR 0x1D, CHR 0x1E, CHR 0x1F, CHR 0x20])"

text \<open>
  \<open>text.split()\<close> without a separator: the maximal runs of characters that are not
  white space, in order. \<open>word\<close> is the run being read.
\<close>

fun split_from :: "string \<Rightarrow> string \<Rightarrow> string list" where
  "split_from word [] = (if word = [] then [] else [word])"
| "split_from word (c # cs) =
     (if isspace c then (if word = [] then split_from [] cs else word # split_from [] cs)
      else split_from (word @ [c]) cs)"

definition split :: "string \<Rightarrow> string list" where
  "split s = split_from [] s"

subsection \<open>class Student\<close>

record student =
  name :: string
  age :: pyval
  grades :: "pyval list"

text \<open>
  The two \<open>ValueError\<close>s the constructor raises, and the ones of the builtin conversions
  (with the text that was refused).
\<close>

datatype value_error =
    Age_must_be_positive_integer
  | Grades_must_be_numbers_0_to_100
  | Invalid_int_literal string
  | Invalid_float_literal string

text \<open>
  \<open>not isinstance(age, int) or age <= 0\<close>. The comparison is only reached for an
  instance of \<open>int\<close>.
\<close>

fun age_refused :: "pyval \<Rightarrow> bool" where
  "age_refused (PInt i) = (i \<le> 0)"
| "age_refused (PBool b) = (int_of_bool b \<le> 0)"
| "age_refused v = True"

text \<open>
  \<open>isinstance(g, (int, float)) and 0 <= g <= 100\<close>. The chained comparison is only
  reached for a number.
\<close>

fun grade_accepted :: "pyval \<Rightarrow> bool" where
  "grade_accepted (PInt i) = (0 \<le> i \<and> i \<le> 100)"
| "grade_accepted (PBool b) = (0 \<le> int_of_bool b \<and> int_of_bool b \<le> 100)"
| "grade_accepted (PFloat f) = (int_le_float 0 f \<and> float_le_int f 100)"
| "grade_accepted v = False"

text \<open>\<open>Student.__init__\<close>: the new object's fields, or the error raised.\<close>

definition Student_init :: "string \<Rightarrow> pyval \<Rightarrow> pyval list \<Rightarrow> value_error + student" where
  "Student_init nm a gs =
     (if age_refused a then Inl Age_must_be_positive_integer
      else if \<not> list_all grade_accepted gs then Inl Grades_must_be_numbers_0_to_100
      else Inr \<lparr>name = nm, age = a, grades = gs\<rparr>)"


subsection \<open>The store\<close>

type_synonym ref = int

record state =
  students :: "ref list"
  heap :: "ref \<Rightarrow> student"

text \<open>
  A new object gets a reference that no element of \<open>students\<close> has. The heap is total:
  a reference that is not in use holds a value that is never read.
\<close>

definition new_ref :: "ref list \<Rightarrow> ref" where
  "new_ref rs = foldr max rs 0 + 1"

definition blank :: student where
  "blank = \<lparr>name = [], age = PNone, grades = []\<rparr>"

text \<open>The state when the module is loaded: \<open>students = []\<close>.\<close>

definition init_state :: state where
  "init_state = \<lparr>students = [], heap = (\<lambda>r. blank)\<rparr>"

text \<open>What a function prints.\<close>

datatype line =
    Added string
  | Updated string
  | Deleted string
  | Error value_error
  | Not_found
  | No_students
  | Display student

text \<open>\<open>find_student\<close>: the loop over \<open>students\<close>, returning at the first match.\<close>

fun find_loop :: "(ref \<Rightarrow> student) \<Rightarrow> string \<Rightarrow> ref list \<Rightarrow> ref option" where
  "find_loop h nm [] = None"
| "find_loop h nm (r # rs) =
     (if lower (name (h r)) = lower nm then Some r else find_loop h nm rs)"

definition find_student :: "state \<Rightarrow> string \<Rightarrow> ref option" where
  "find_student st nm = find_loop (heap st) nm (students st)"

text \<open>\<open>list(map(float, tokens))\<close>: the first token that \<open>float\<close> refuses raises.\<close>

fun floats_of :: "(string \<Rightarrow> pyfloat option) \<Rightarrow> string list \<Rightarrow> value_error + pyfloat list" where
  "floats_of to_float [] = Inr []"
| "floats_of to_float (t # ts) =
     (case to_float t of
        None \<Rightarrow> Inl (Invalid_float_literal t)
      | Some f \<Rightarrow>
          (case floats_of to_float ts of
             Inl e \<Rightarrow> Inl e
           | Inr fs \<Rightarrow> Inr (f # fs)))"

text \<open>\<open>add_student\<close>: every \<open>ValueError\<close> of the \<open>try\<close> block is caught and printed.\<close>

definition add_student ::
  "(string \<Rightarrow> int option) \<Rightarrow> (string \<Rightarrow> pyfloat option) \<Rightarrow>
     state \<Rightarrow> string \<Rightarrow> string \<Rightarrow> string \<Rightarrow> line \<times> state" where
  "add_student to_int to_float st nm age_text grades_text =
     (case to_int age_text of
        None \<Rightarrow> (Error (Invalid_int_literal age_text), st)
      | Some a \<Rightarrow>
          (case floats_of to_float (split grades_text) of
             Inl e \<Rightarrow> (Error e, st)
           | Inr gs \<Rightarrow>
               (case Student_init nm (PInt a) (map PFloat gs) of
                  Inl e \<Rightarrow> (Error e, st)
                | Inr s \<Rightarrow>
                    (let r = new_ref (students st)
                     in (Added nm,
                         st\<lparr>students := students st @ [r], heap := (heap st)(r := s)\<rparr>)))))"

text \<open>
  \<open>update_student\<close>: the two fields of the object found are assigned after both
  conversions; the constructor is not called.
\<close>

definition update_student ::
  "(string \<Rightarrow> int option) \<Rightarrow> (string \<Rightarrow> pyfloat option) \<Rightarrow>
     state \<Rightarrow> string \<Rightarrow> string \<Rightarrow> string \<Rightarrow> line \<times> state" where
  "update_student to_int to_float st nm age_text grades_text =
     (case find_student st nm of
        None \<Rightarrow> (Not_found, st)
      | Some r \<Rightarrow>
          (case to_int age_text of
             None \<Rightarrow> (Error (Invalid_int_literal age_text), st)
           | Some a \<Rightarrow>
               (case floats_of to_float (split grades_text) of
                  Inl e \<Rightarrow> (Error e, st)
                | Inr gs \<Rightarrow>
                    (Updated nm,
                     st\<lparr>heap := (heap st)(r := (heap st r)\<lparr>age := PInt a, grades := map PFloat gs\<rparr>)\<rparr>))))"

text \<open>\<open>delete_student\<close>: \<open>students.remove(student)\<close> removes the first occurrence.\<close>

definition delete_student :: "state \<Rightarrow> string \<Rightarrow> line \<times> state" where
  "delete_student st nm =
     (case find_student st nm of
        None \<Rightarrow> (Not_found, st)
      | Some r \<Rightarrow> (Deleted nm, st\<lparr>students := remove1 r (students st)\<rparr>))"

text \<open>
  \<open>view_student\<close> and \<open>list_students\<close> print with \<open>display\<close>, whose line is made of the
  object's fields and its average; the line is represented by the object's value.
\<close>

definition view_student :: "state \<Rightarrow> string \<Rightarrow> line" where
  "view_student st nm =
     (case find_student st nm of
        None \<Rightarrow> Not_found
      | Some r \<Rightarrow> Display (heap st r))"

definition list_students :: "state \<Rightarrow> line list" where
  "list_students st =
     (if students st = [] then [No_students]
      else map (\<lambda>r. Display (heap st r)) (students st))"

subsection \<open>Views of the state used in the statements\<close>


text \<open>The objects of the store, in the order of \<open>students\<close>.\<close>

definition records :: "state \<Rightarrow> student list" where
  "records st = map (heap st) (students st)"


text \<open>
  The states of a session: the menu calls \<open>add_student\<close>, \<open>update_student\<close> and
  \<open>delete_student\<close> in any order, with any texts typed in (viewing and listing do not
  change the state).
\<close>

inductive reachable ::
  "(string \<Rightarrow> int option) \<Rightarrow> (string \<Rightarrow> pyfloat option) \<Rightarrow> state \<Rightarrow> bool"
  for to_int to_float where
  start: "reachable to_int to_float init_state"
| add: "reachable to_int to_float st \<Longrightarrow>
        reachable to_int to_float (snd (add_student to_int to_float st nm age_text grades_text))"
| update: "reachable to_int to_float st \<Longrightarrow>
        reachable to_int to_float (snd (update_student to_int to_float st nm age_text grades_text))"
| delete: "reachable to_int to_float st \<Longrightarrow>
        reachable to_int to_float (snd (delete_student st nm))"

text \<open>
  The invariant of the specification, in its words: the age is an integer greater than 0
  and every score \<open>v\<close> is a number with \<open>0 <= v <= 100\<close>.
\<close>

fun positive_integer :: "pyval \<Rightarrow> bool" where
  "positive_integer (PInt i) = (0 < i)"
| "positive_integer v = False"

fun score_in_range :: "pyval \<Rightarrow> bool" where
  "score_in_range (PInt i) = (0 \<le> i \<and> i \<le> 100)"
| "score_in_range (PFloat (Finite x)) = (0 \<le> x \<and> x \<le> 100)"
| "score_in_range v = False"

definition record_ok :: "student \<Rightarrow> bool" where
  "record_ok s = (positive_integer (age s) \<and> list_all score_in_range (grades s))"

definition store_inv :: "state \<Rightarrow> bool" where
  "store_inv st = list_all record_ok (records st)"

subsection \<open>Example inputs\<close>

text \<open>
  For the closed examples the two conversions are tables: they agree with \<open>int\<close> and
  \<open>float\<close> on the texts listed, the only ones the examples convert.
\<close>

definition example_int :: "string \<Rightarrow> int option" where
  "example_int = map_of [(''20'', 20), (''21'', 21), (''30'', 30), (''0'', 0), (''-5'', - 5)]"

definition example_float :: "string \<Rightarrow> pyfloat option" where
  "example_float =
     map_of [(''90'', Finite 90), (''80'', Finite 80), (''100'', Finite 100),
             (''200'', Finite 200), (''-1'', Finite (- 1)), (''nan'', NaN)]"

text \<open>One student; two students whose names differ in case only; two different students.\<close>

definition ann_state :: state where
  "ann_state = snd (add_student example_int example_float init_state ''Ann'' ''20'' ''90 80'')"



section \<open>Auxiliary facts\<close>

lemmas text_defs = lower_def lower_char_def split_def isspace_def
lemmas example_defs = example_int_def example_float_def init_state_def
lemmas op_defs = add_student_def update_student_def delete_student_def find_student_def
  view_student_def list_students_def Student_init_def new_ref_def records_def

subsection \<open>The loop of \<open>find_student\<close>\<close>




subsection \<open>Listings\<close>




subsection \<open>References\<close>

lemma new_ref_fresh: "new_ref rs \<notin> set rs"
proof -
  have "r \<in> set rs \<Longrightarrow> r \<le> foldr max rs 0" for r
    by (induction rs) auto
  then show ?thesis
    unfolding new_ref_def by fastforce
qed








subsection \<open>The example states, evaluated\<close>

lemma ann_state_eq:
  "ann_state =
     \<lparr>students = [1],
      heap = (\<lambda>r. blank)
        (1 := \<lparr>name = ''Ann'', age = PInt 20,
                grades = [PFloat (Finite 90), PFloat (Finite 80)]\<rparr>)\<rparr>"
  by (simp add: ann_state_def op_defs example_defs text_defs)



lemma reachable_ann_state: "reachable example_int example_float ann_state"
  unfolding ann_state_def by (rule reachable.add) (rule reachable.start)

subsection \<open>What \<open>add_student\<close> checks and \<open>update_student\<close> does not\<close>

lemma add_student_error_keeps_state:
  "add_student to_int to_float st nm age_text grades_text = (Error e, st') \<Longrightarrow> st' = st"
  by (auto simp: add_student_def Let_def split: option.splits sum.splits)

lemma add_student_refuses_age:
  assumes "to_int age_text = None \<or> (\<exists>a. to_int age_text = Some a \<and> a \<le> 0)"
  shows "\<exists>e. add_student to_int to_float st nm age_text grades_text = (Error e, st)"
  using assms
  by (auto simp: add_student_def Student_init_def split: option.splits sum.splits)

lemma add_student_refuses_grade:
  assumes "floats_of to_float (split grades_text) = Inr gs"
    and "f \<in> set gs"
    and "\<not> (int_le_float 0 f \<and> float_le_int f 100)"
  shows "\<exists>e. add_student to_int to_float st nm age_text grades_text = (Error e, st)"
proof -
  from assms(2,3) have "\<not> list_all grade_accepted (map PFloat gs)"
    by (auto simp: list_all_iff)
  with assms(1) show ?thesis
    by (auto simp: add_student_def Student_init_def split: option.splits)
qed

lemma update_student_error_keeps_state:
  "update_student to_int to_float st nm age_text grades_text = (Error e, st') \<Longrightarrow> st' = st"
  by (auto simp: update_student_def split: option.splits sum.splits)

lemma update_student_refuses_text:
  assumes "find_student st nm = Some r"
    and "to_int age_text = None \<or> (\<exists>e. floats_of to_float (split grades_text) = Inl e)"
  shows "\<exists>e. update_student to_int to_float st nm age_text grades_text = (Error e, st)"
  using assms
  by (auto simp: update_student_def split: option.splits sum.splits)

text \<open>Every integer and every list of floats is assigned, whatever their values.\<close>

lemma update_student_assigns:
  assumes "find_student st nm = Some r"
    and "to_int age_text = Some a"
    and "floats_of to_float (split grades_text) = Inr gs"
  shows "update_student to_int to_float st nm age_text grades_text =
     (Updated nm,
      st\<lparr>heap := (heap st)(r := (heap st r)\<lparr>age := PInt a, grades := map PFloat gs\<rparr>)\<rparr>)"
  using assms by (simp add: update_student_def)

lemma grade_accepted_float_in_range:
  "grade_accepted (PFloat f) \<Longrightarrow> score_in_range (PFloat f)"
  by (cases f) simp_all

lemma add_student_keeps_store_inv:
  assumes "store_inv st"
  shows "store_inv (snd (add_student to_int to_float st nm age_text grades_text))"
proof -
  let ?r = "new_ref (students st)"
  have fresh: "map ((heap st)(?r := s)) (students st) = map (heap st) (students st)" for s
    using new_ref_fresh [of "students st"] by (auto simp: fun_upd_apply)
  have ok: "record_ok \<lparr>name = nm, age = PInt a, grades = map PFloat gs\<rparr>"
    if "\<not> a \<le> 0" "list_all grade_accepted (map PFloat gs)" for a gs
    using that
    by (auto simp: record_ok_def list_all_iff intro: grade_accepted_float_in_range)
  have appended: "store_inv (st\<lparr>students := students st @ [?r], heap := (heap st)(?r := s)\<rparr>)"
    if "record_ok s" for s
    using assms that by (simp add: store_inv_def records_def fresh)
  show ?thesis
    using assms appended ok
    by (simp add: add_student_def Let_def Student_init_def split: option.splits sum.splits)
qed

lemma delete_student_keeps_store_inv:
  assumes "store_inv st"
  shows "store_inv (snd (delete_student st nm))"
proof -
  have "set (remove1 r (students st)) \<subseteq> set (students st)" for r
    by (rule set_remove1_subset)
  with assms show ?thesis
    by (auto simp: delete_student_def store_inv_def records_def list_all_iff
        split: option.splits)
qed

section \<open>The claims\<close>

text \<open>
  Reading of the specification's interface: \<open>create\<close> is \<open>add_student\<close>, \<open>update\<close> is
  \<open>update_student\<close>, \<open>delete\<close> is \<open>delete_student\<close>, \<open>find\<close> is \<open>find_student\<close>, \<open>list()\<close>
  is what \<open>list_students\<close> displays (\<open>listed (list_students st) = records st\<close>). The
  signal \<open>ValidationError\<close> is a printed \<open>Error\<close> line, \<open>NotFound\<close> is the result \<open>None\<close> of
  \<open>find_student\<close> and the printed line \<open>Not_found\<close>. An age that is not an integer is a
  text that \<open>int\<close> refuses.
\<close>

text \<open>
  Claim C1. Create and update with an age that is not a positive integer signal
  ValidationError and leave the store unchanged; update validates the age as create does.

  The code does not do this for update. In the store that holds Ann (age 20, grades 90
  and 80), \<open>update_student\<close> with the texts \<open>ann\<close>, \<open>-5\<close>, \<open>90 80\<close> prints the line
  \<open>Updated\<close> and Ann's age is -5 afterwards, while \<open>add_student\<close> with the same age and
  grades prints the error of the constructor and leaves the state as it was
  (\<open>add_student_refuses_age\<close>, \<open>update_student_assigns\<close>).
\<close>

theorem update_student_accepts_age_not_positive:
  "fst (update_student example_int example_float ann_state ''ann'' ''-5'' ''90 80'') = Updated ''ann'' \<and>
   records (snd (update_student example_int example_float ann_state ''ann'' ''-5'' ''90 80'')) =
     [\<lparr>name = ''Ann'', age = PInt (- 5), grades = [PFloat (Finite 90), PFloat (Finite 80)]\<rparr>] \<and>
   add_student example_int example_float ann_state ''Bob'' ''-5'' ''90 80'' =
     (Error Age_must_be_positive_integer, ann_state)"
  by (simp add: ann_state_eq op_defs example_defs text_defs)

text \<open>
  Claim C2. Create and update with a score below 0 or above 100 signal ValidationError and
  leave the store unchanged: the whole new state is valid and applied, or nothing changes.

  The code does not do this for update. In the store that holds Ann, \<open>update_student\<close>
  with the texts \<open>ann\<close>, \<open>21\<close>, \<open>200 -1 nan\<close> prints the line \<open>Updated\<close> and Ann's grades are
  200, -1 and NaN afterwards, while \<open>add_student\<close> with the same grades prints the error
  of the constructor and leaves the state as it was (\<open>add_student_refuses_grade\<close>).
\<close>

theorem update_student_accepts_grade_out_of_range:
  "fst (update_student example_int example_float ann_state ''ann'' ''21'' ''200 -1 nan'') = Updated ''ann'' \<and>
   records (snd (update_student example_int example_float ann_state ''ann'' ''21'' ''200 -1 nan'')) =
     [\<lparr>name = ''Ann'', age = PInt 21,
       grades = [PFloat (Finite 200), PFloat (Finite (- 1)), PFloat NaN]\<rparr>] \<and>
   add_student example_int example_float ann_state ''Bob'' ''21'' ''200 -1 nan'' =
     (Error Grades_must_be_numbers_0_to_100, ann_state)"
  by (simp add: ann_state_eq op_defs example_defs text_defs)

text \<open>
  Claim C3. In every state reachable from the empty store by create, update and delete,
  every record has an integer age greater than 0 and scores between 0 and 100.

  The code breaks the invariant: adding Ann (20; 90 and 80) gives a state that satisfies
  it, and updating her with the texts \<open>0\<close> and \<open>200\<close> gives a reachable state that does
  not. (\<open>add_student\<close> and \<open>delete_student\<close> keep the invariant:
  \<open>add_student_keeps_store_inv\<close>, \<open>delete_student_keeps_store_inv\<close>.)
\<close>

theorem reachable_state_breaks_invariant:
  "reachable example_int example_float
     (snd (update_student example_int example_float ann_state ''Ann'' ''0'' ''200'')) \<and>
   store_inv ann_state \<and>
   \<not> store_inv (snd (update_student example_int example_float ann_state ''Ann'' ''0'' ''200''))"
proof -
  have "reachable example_int example_float
     (snd (update_student example_int example_float ann_state ''Ann'' ''0'' ''200''))"
    by (rule reachable.update) (rule reachable_ann_state)
  moreover have "store_inv ann_state"
    by (simp add: store_inv_def record_ok_def records_def ann_state_eq)
  moreover have
    "\<not> store_inv (snd (update_student example_int example_float ann_state ''Ann'' ''0'' ''200''))"
    by (simp add: store_inv_def record_ok_def ann_state_eq op_defs example_defs text_defs)
  ultimately show ?thesis by blast
qed












text \<open>
  Claim C10. When some element of the scores is not a number, that is not an instance of
  \<open>int\<close> or \<open>float\<close>, the constructor raises a \<open>ValueError\<close>: the one about the age if
  the age is refused, which is checked first, else the one about the grades. Whenever
  the constructor raises inside \<open>add_student\<close>, the error is printed and the state is
  unchanged.
\<close>

theorem Student_init_refuses_non_number:
  "(g \<in> set gs \<and> \<not> isinstance_int_float g \<longrightarrow>
      Student_init nm a gs =
        Inl (if age_refused a then Age_must_be_positive_integer
             else Grades_must_be_numbers_0_to_100)) \<and>
   (to_int age_text = Some a' \<and> floats_of to_float (split grades_text) = Inr fs \<and>
    Student_init nm (PInt a') (map PFloat fs) = Inl e \<longrightarrow>
      add_student to_int to_float st nm age_text grades_text = (Error e, st))"
proof -
  have "\<not> grade_accepted g" if "\<not> isinstance_int_float g"
    using that by (cases g) simp_all
  then have "\<not> list_all grade_accepted gs" if "g \<in> set gs" "\<not> isinstance_int_float g"
    using that by (auto simp: list_all_iff)
  then show ?thesis
    by (auto simp: Student_init_def add_student_def)
qed

theorem Student_init_refuses_non_number_witness:
  "PStr ''A'' \<in> set [PFloat (Finite 90), PStr ''A''] \<and>
   \<not> isinstance_int_float (PStr ''A'') \<and>
   Student_init ''Ann'' (PInt 20) [PFloat (Finite 90), PStr ''A''] =
     Inl Grades_must_be_numbers_0_to_100 \<and>
   Student_init ''Ann'' (PInt 20) [PFloat (Finite 90), PNone] =
     Inl Grades_must_be_numbers_0_to_100 \<and>
   example_int ''20'' = Some 20 \<and>
   floats_of example_float (split ''90 200'') = Inr [Finite 90, Finite 200] \<and>
   Student_init ''Ann'' (PInt 20) (map PFloat [Finite 90, Finite 200]) =
     Inl Grades_must_be_numbers_0_to_100 \<and>
   add_student example_int example_float ann_state ''Ann'' ''20'' ''90 200'' =
     (Error Grades_must_be_numbers_0_to_100, ann_state)"
proof -
  have a: "PStr ''A'' \<in> set [PFloat (Finite 90), PStr ''A''] \<and> \<not> isinstance_int_float (PStr ''A'')"
    by simp
  have a': "PNone \<in> set [PFloat (Finite 90), PNone] \<and> \<not> isinstance_int_float PNone"
    by simp
  have n: "\<not> age_refused (PInt 20)"
    by simp
  have b: "example_int ''20'' = Some 20 \<and>
      floats_of example_float (split ''90 200'') = Inr [Finite 90, Finite 200] \<and>
      Student_init ''Ann'' (PInt 20) (map PFloat [Finite 90, Finite 200]) =
        Inl Grades_must_be_numbers_0_to_100"
    by (simp add: example_defs text_defs Student_init_def)
  from Student_init_refuses_non_number [of "PStr ''A''" "[PFloat (Finite 90), PStr ''A'']" "''Ann''" "PInt 20"
      example_int "''20''" 20 example_float "''90 200''" "[Finite 90, Finite 200]"
      Grades_must_be_numbers_0_to_100 ann_state]
    Student_init_refuses_non_number [of PNone "[PFloat (Finite 90), PNone]" "''Ann''" "PInt 20"
      example_int "''20''" 20 example_float "''90 200''" "[Finite 90, Finite 200]"
      Grades_must_be_numbers_0_to_100 ann_state]
    a a' n b
  show ?thesis by simp
qed

end
